theory Spec2Isabelle
  imports Complex_Main
begin

section \<open>Python values the program handles\<close>

text \<open>
  The exceptions of \<^verbatim>\<open>process_csv.py\<close> that leave a function are values here:
  a function that can raise returns \<open>error + 'a\<close>, with \<open>Inl\<close> for the exception.
  \<open>SystemExit n\<close> is \<^verbatim>\<open>sys.exit(n)\<close>.
\<close>

datatype error =
    KeyError
  | ValueError
  | TypeError
  | AttributeError
  | IndexError
  | ZeroDivisionError
  | OverflowError
  | UnboundLocalError
  | SystemExit int

text \<open>
  A Python \<^verbatim>\<open>float\<close>. Finite floats are idealised as exact rationals: the
  rounding of binary floating point is not modelled, the arithmetic of the source is
  carried out exactly. The three special values are kept, since \<^verbatim>\<open>float()\<close>
  reads them from a string.
\<close>

datatype pyfloat = Fin rat | PosInf | NegInf | NaN

subsection \<open>Characters and the built-in readers of numbers\<close>

text \<open>
  Strings are ASCII here. \<open>is_space\<close> is \<^verbatim>\<open>str.isspace\<close> on ASCII (the class
  \<^verbatim>\<open>\s\<close> of \<^verbatim>\<open>re\<close>, and what \<^verbatim>\<open>str.strip()\<close> removes), \<open>is_word\<close> is
  the class \<^verbatim>\<open>\w\<close>.
\<close>

definition is_space :: "char \<Rightarrow> bool" where
  "is_space c = (c \<in> set [CHR 0x09, CHR 0x0A, CHR 0x0B, CHR 0x0C, CHR 0x0D,
                           CHR 0x1C, CHR 0x1D, CHR 0x1E, CHR 0x1F, CHR 0x20])"

definition is_digit :: "char \<Rightarrow> bool" where
  "is_digit c = (c \<in> set ''0123456789'')"

definition is_word :: "char \<Rightarrow> bool" where
  "is_word c = (c \<in> set ''abcdefghijklmnopqrstuvwxyzABCDEFGHIJKLMNOPQRSTUVWXYZ0123456789_'')"

definition digit_val :: "char \<Rightarrow> nat" where
  "digit_val c = of_char c - 48"

definition strip :: "string \<Rightarrow> string" where
  "strip s = rev (dropWhile is_space (rev (dropWhile is_space s)))"

definition lower_char :: "char \<Rightarrow> char" where
  "lower_char c =
     (if c \<in> set ''ABCDEFGHIJKLMNOPQRSTUVWXYZ'' then char_of (of_char c + (32::nat)) else c)"

text \<open>
  Underscores in a numeric literal: each one stands between two digits and is dropped.
  The first argument is the character before the rest.
\<close>

fun drop_underscores :: "char option \<Rightarrow> string \<Rightarrow> string option" where
  "drop_underscores prev [] = Some []"
| "drop_underscores prev (c # cs) =
     (if c = CHR ''_'' then
        (case (prev, cs) of
           (Some p, d # ds) \<Rightarrow>
             if is_digit p \<and> is_digit d then drop_underscores (Some c) cs else None
         | _ \<Rightarrow> None)
      else map_option ((#) c) (drop_underscores (Some c) cs))"

definition digits_nat :: "string \<Rightarrow> nat" where
  "digits_nat ds = foldl (\<lambda>a c. 10 * a + digit_val c) 0 ds"

definition all_digits :: "string \<Rightarrow> bool" where
  "all_digits ds = (ds \<noteq> [] \<and> list_all is_digit ds)"

text \<open>
  \<^verbatim>\<open>int(s)\<close> for a string, base ten: surrounding whitespace, one optional sign, digits
  with single underscores between them. \<open>None\<close> is \<^verbatim>\<open>ValueError\<close>.
\<close>

definition unsigned_int :: "string \<Rightarrow> nat option" where
  "unsigned_int s =
     (case drop_underscores None s of
        None \<Rightarrow> None
      | Some ds \<Rightarrow> if all_digits ds then Some (digits_nat ds) else None)"

definition py_int :: "string \<Rightarrow> int option" where
  "py_int s =
     (case strip s of
        [] \<Rightarrow> None
      | c # cs \<Rightarrow>
          if c = CHR ''-'' then map_option (\<lambda>n. - int n) (unsigned_int cs)
          else if c = CHR ''+'' then map_option int (unsigned_int cs)
          else map_option int (unsigned_int (c # cs)))"

text \<open>
  \<^verbatim>\<open>float(s)\<close> for a string: surrounding whitespace, one optional sign, then
  \<^verbatim>\<open>inf\<close>, \<^verbatim>\<open>infinity\<close> or \<^verbatim>\<open>nan\<close> in any case, or a decimal literal
  (digits, an optional point, an optional exponent; at least one digit in the mantissa).
  \<open>None\<close> is \<^verbatim>\<open>ValueError\<close>.
\<close>

definition is_exp_mark :: "char \<Rightarrow> bool" where
  "is_exp_mark c = (c = CHR ''e'' \<or> c = CHR ''E'')"

definition exponent_of :: "string \<Rightarrow> int option" where
  "exponent_of r =
     (case r of
        [] \<Rightarrow> Some 0
      | m # e \<Rightarrow>
          (case e of
             [] \<Rightarrow> None
           | c # cs \<Rightarrow>
               if c = CHR ''-'' then (if all_digits cs then Some (- int (digits_nat cs)) else None)
               else if c = CHR ''+'' then (if all_digits cs then Some (int (digits_nat cs)) else None)
               else if all_digits e then Some (int (digits_nat e)) else None))"

definition scale10 :: "rat \<Rightarrow> int \<Rightarrow> rat" where
  "scale10 x k = (if 0 \<le> k then x * 10 ^ nat k else x / 10 ^ nat (- k))"

definition parse_decimal :: "string \<Rightarrow> rat option" where
  "parse_decimal s =
     (let m = takeWhile (\<lambda>c. \<not> is_exp_mark c) s;
          r = dropWhile (\<lambda>c. \<not> is_exp_mark c) s;
          ip = takeWhile is_digit m;
          rest = dropWhile is_digit m;
          frac = (case rest of
                    [] \<Rightarrow> Some []
                  | c # fp \<Rightarrow> if c = CHR ''.'' \<and> list_all is_digit fp then Some fp else None)
      in case (frac, exponent_of r) of
           (Some fp, Some e) \<Rightarrow>
             if ip @ fp = [] then None
             else Some (scale10 (of_nat (digits_nat (ip @ fp))) (e - int (length fp)))
         | _ \<Rightarrow> None)"

definition py_float :: "string \<Rightarrow> pyfloat option" where
  "py_float s =
     (let t = strip s;
          neg = (case t of [] \<Rightarrow> False | c # _ \<Rightarrow> c = CHR ''-'');
          b = (case t of [] \<Rightarrow> [] | c # cs \<Rightarrow> if c = CHR ''-'' \<or> c = CHR ''+'' then cs else t);
          l = map lower_char b
      in if l = ''inf'' \<or> l = ''infinity'' then Some (if neg then NegInf else PosInf)
         else if l = ''nan'' then Some NaN
         else (case drop_underscores None b of
                 None \<Rightarrow> None
               | Some d \<Rightarrow>
                   (case parse_decimal d of
                      None \<Rightarrow> None
                    | Some x \<Rightarrow> Some (Fin (if neg then - x else x)))))"

section \<open>The rate limiter\<close>

text \<open>
  What the program reads of a \<^verbatim>\<open>requests.Response\<close>: the status code and the
  headers. \<^verbatim>\<open>response.headers\<close> is case-insensitive; the map is keyed by the
  lower-case names the source uses.
\<close>

record http_response =
  status_code :: int
  headers :: "string \<rightharpoonup> string"

text \<open>
  The two fields of \<^verbatim>\<open>CsvProcessor\<close> the rate limiter reads and writes.
  \<^verbatim>\<open>__init__\<close> sets them to \<^verbatim>\<open>-1\<close> and \<^verbatim>\<open>None\<close>.
\<close>

record rate_limit_state =
  prev_rate_limit_remaining :: int
  request_start_time :: "rat option"

definition init_state :: rate_limit_state where
  "init_state = \<lparr>prev_rate_limit_remaining = - 1, request_start_time = None\<rparr>"

text \<open>
  \<^verbatim>\<open>if self.request_start_time:\<close> is Python's truth test: \<^verbatim>\<open>None\<close> and
  \<^verbatim>\<open>0.0\<close> are both false.
\<close>

definition start_time_set :: "rat option \<Rightarrow> bool" where
  "start_time_set t = (case t of None \<Rightarrow> False | Some x \<Rightarrow> x \<noteq> 0)"

definition rate_limited :: "http_response \<Rightarrow> bool" where
  "rate_limited r = (status_code r = 429 \<or> status_code r = 402)"

definition used_limit_since_last_call :: "int \<Rightarrow> int \<Rightarrow> int" where
  "used_limit_since_last_call prev this =
     (if 0 < prev \<and> prev < this then this - prev else 1)"

definition pacing_interval :: "int \<Rightarrow> int \<Rightarrow> int \<Rightarrow> rat" where
  "pacing_interval time_until_reset this used =
     (of_int time_until_reset / of_int this) * of_int used * (105 / 100)"

text \<open>
  \<^verbatim>\<open>CsvProcessor.handle_rate_limit\<close>. The third argument is the value
  \<^verbatim>\<open>time.perf_counter()\<close> returns at line 214. The state is returned with the
  result, also when the call raises: \<^verbatim>\<open>prev_rate_limit_remaining\<close> is assigned
  before the division. A header that is absent raises \<^verbatim>\<open>KeyError\<close>, which the
  \<^verbatim>\<open>except ValueError\<close> of the source does not catch; \<^verbatim>\<open>int()\<close> of the
  first header is tried before the second header is read.
\<close>

definition handle_rate_limit ::
  "rate_limit_state \<Rightarrow> http_response \<Rightarrow> rat \<Rightarrow> rate_limit_state \<times> (error + pyfloat)" where
  "handle_rate_limit st response now =
     (if rate_limited response \<and> headers response ''retry-after'' \<noteq> None then
        (case py_float (the (headers response ''retry-after'')) of
           None \<Rightarrow> (st, Inl ValueError)
         | Some d \<Rightarrow> (st, Inr d))
      else
        (case headers response ''x-gate-rate-limit-calls'' of
           None \<Rightarrow> (st, Inl KeyError)
         | Some calls \<Rightarrow>
             (case py_int calls of
                None \<Rightarrow> (st, Inr (Fin 0))
              | Some this_rate_limit_remaining \<Rightarrow>
                  (case headers response ''x-gate-rate-limit-reset'' of
                     None \<Rightarrow> (st, Inl KeyError)
                   | Some reset \<Rightarrow>
                       (case py_int reset of
                          None \<Rightarrow> (st, Inr (Fin 0))
                        | Some time_until_reset \<Rightarrow>
                            (let used = used_limit_since_last_call
                                          (prev_rate_limit_remaining st) this_rate_limit_remaining;
                                 st' = st\<lparr>prev_rate_limit_remaining := this_rate_limit_remaining\<rparr>
                             in if this_rate_limit_remaining = 0 then (st', Inl ZeroDivisionError)
                                else
                                  (let w = pacing_interval time_until_reset
                                             this_rate_limit_remaining used;
                                       w' = (if start_time_set (request_start_time st)
                                             then w + (the (request_start_time st) - now)
                                             else w)
                                   in (st', Inr (Fin (if w' > 0 then w' else 0))))))))))"

text \<open>Responses used as concrete inputs below.\<close>

definition retry_response :: http_response where
  "retry_response =
     \<lparr>status_code = 429,
      headers = [''retry-after'' \<mapsto> ''30'', ''x-gate-rate-limit-calls'' \<mapsto> ''0'',
                 ''x-gate-rate-limit-reset'' \<mapsto> ''100'']\<rparr>"


definition exhausted_response :: http_response where
  "exhausted_response =
     \<lparr>status_code = 200,
      headers = [''x-gate-rate-limit-calls'' \<mapsto> ''0'',
                 ''x-gate-rate-limit-reset'' \<mapsto> ''100'']\<rparr>"

definition bare_response :: http_response where
  "bare_response = \<lparr>status_code = 200, headers = Map.empty\<rparr>"

section \<open>JSON values and the Python operations on them\<close>

text \<open>
  What \<^verbatim>\<open>response.json()\<close> returns: a JSON document as Python reads it
  (\<^verbatim>\<open>None\<close>, \<^verbatim>\<open>bool\<close>, \<^verbatim>\<open>int\<close>, \<^verbatim>\<open>float\<close>, \<^verbatim>\<open>str\<close>,
  \<^verbatim>\<open>list\<close>, \<^verbatim>\<open>dict\<close>). A \<^verbatim>\<open>dict\<close> is the list of its items in order,
  its keys distinct; a key is looked up with \<open>map_of\<close>.
\<close>

datatype json =
    JNull
  | JBool bool
  | JInt int
  | JFloat pyfloat
  | JStr string
  | JList "json list"
  | JObj "(string \<times> json) list"

text \<open>
  Two library functions are parameters of the model: \<open>py_repr\<close> is what \<^verbatim>\<open>str()\<close>
  gives for a finite float, a list or a dict (their \<^verbatim>\<open>repr\<close>), \<open>json_dumps\<close> is
  \<^verbatim>\<open>json.dumps\<close>. Every theorem holds for whatever they return.
\<close>

record builtins =
  py_repr :: "json \<Rightarrow> string"
  json_dumps :: "json \<Rightarrow> string"

definition and_then :: "error + 'a \<Rightarrow> ('a \<Rightarrow> error + 'b) \<Rightarrow> error + 'b" where
  "and_then m f = (case m of Inl e \<Rightarrow> Inl e | Inr x \<Rightarrow> f x)"

text \<open>A comprehension or loop over a list that stops at the first exception.\<close>

fun map_result :: "('a \<Rightarrow> error + 'b) \<Rightarrow> 'a list \<Rightarrow> error + 'b list" where
  "map_result f [] = Inr []"
| "map_result f (x # xs) =
     (case f x of
        Inl e \<Rightarrow> Inl e
      | Inr y \<Rightarrow> (case map_result f xs of Inl e \<Rightarrow> Inl e | Inr ys \<Rightarrow> Inr (y # ys)))"

text \<open>\<^verbatim>\<open>separator.join(parts)\<close>.\<close>

fun join :: "string \<Rightarrow> string list \<Rightarrow> string" where
  "join sep [] = []"
| "join sep [x] = x"
| "join sep (x # y # ys) = x @ sep @ join sep (y # ys)"

text \<open>\<^verbatim>\<open>obj[key]\<close> with a string key.\<close>

definition py_getitem :: "json \<Rightarrow> string \<Rightarrow> error + json" where
  "py_getitem obj key =
     (case obj of
        JObj kvs \<Rightarrow> (case map_of kvs key of None \<Rightarrow> Inl KeyError | Some v \<Rightarrow> Inr v)
      | _ \<Rightarrow> Inl TypeError)"

text \<open>\<^verbatim>\<open>obj.get(key, default)\<close>: only a dict has the method.\<close>

definition py_get :: "json \<Rightarrow> string \<Rightarrow> json \<Rightarrow> error + json" where
  "py_get obj key dflt =
     (case obj of
        JObj kvs \<Rightarrow> (case map_of kvs key of None \<Rightarrow> Inr dflt | Some v \<Rightarrow> Inr v)
      | _ \<Rightarrow> Inl AttributeError)"

text \<open>
  Iteration (\<^verbatim>\<open>for x in obj\<close>, \<^verbatim>\<open>*obj\<close>): the elements of a list, the keys of a
  dict, the characters of a string.
\<close>

definition py_iter :: "json \<Rightarrow> error + json list" where
  "py_iter obj =
     (case obj of
        JList xs \<Rightarrow> Inr xs
      | JObj kvs \<Rightarrow> Inr (map (\<lambda>kv. JStr (fst kv)) kvs)
      | JStr s \<Rightarrow> Inr (map (\<lambda>c. JStr [c]) s)
      | _ \<Rightarrow> Inl TypeError)"

definition py_len :: "json \<Rightarrow> error + nat" where
  "py_len obj =
     (case obj of
        JList xs \<Rightarrow> Inr (length xs)
      | JObj kvs \<Rightarrow> Inr (length kvs)
      | JStr s \<Rightarrow> Inr (length s)
      | _ \<Rightarrow> Inl TypeError)"

fun is_substring :: "string \<Rightarrow> string \<Rightarrow> bool" where
  "is_substring k [] = (k = [])"
| "is_substring k (c # cs) = (take (length k) (c # cs) = k \<or> is_substring k cs)"

text \<open>
  \<^verbatim>\<open>key in obj\<close> where \<open>key\<close> is a string or \<^verbatim>\<open>None\<close>: a key of a dict, an
  element of a list, a substring of a string (\<^verbatim>\<open>None in "abc"\<close> raises).
\<close>

definition py_contains :: "string option \<Rightarrow> json \<Rightarrow> error + bool" where
  "py_contains key obj =
     (case obj of
        JObj kvs \<Rightarrow> Inr (case key of None \<Rightarrow> False | Some k \<Rightarrow> k \<in> set (map fst kvs))
      | JList xs \<Rightarrow> Inr (case key of None \<Rightarrow> JNull \<in> set xs | Some k \<Rightarrow> JStr k \<in> set xs)
      | JStr s \<Rightarrow> (case key of None \<Rightarrow> Inl TypeError | Some k \<Rightarrow> Inr (is_substring k s))
      | _ \<Rightarrow> Inl TypeError)"

text \<open>\<^verbatim>\<open>obj[key]\<close> where \<open>key\<close> is a string or \<^verbatim>\<open>None\<close>.\<close>

definition py_getitem_opt :: "json \<Rightarrow> string option \<Rightarrow> error + json" where
  "py_getitem_opt obj key =
     (case key of
        Some k \<Rightarrow> py_getitem obj k
      | None \<Rightarrow> (case obj of JObj kvs \<Rightarrow> Inl KeyError | _ \<Rightarrow> Inl TypeError))"

text \<open>Python's truth test.\<close>

definition truthy :: "json \<Rightarrow> bool" where
  "truthy v =
     (case v of
        JNull \<Rightarrow> False
      | JBool b \<Rightarrow> b
      | JInt i \<Rightarrow> i \<noteq> 0
      | JFloat f \<Rightarrow> f \<noteq> Fin 0
      | JStr s \<Rightarrow> s \<noteq> []
      | JList xs \<Rightarrow> xs \<noteq> []
      | JObj kvs \<Rightarrow> kvs \<noteq> [])"

subsection \<open>Slices\<close>

text \<open>
  \<^verbatim>\<open>s[slice(*args)]\<close> for a string \<open>s\<close>. \<^verbatim>\<open>slice\<close> takes one to three
  arguments; each is \<^verbatim>\<open>None\<close> or an integer (a bool counts as one) when the slice
  is applied, the step is read first and is not 0. The bounds are clamped to the string
  as CPython's \<^verbatim>\<open>PySlice_AdjustIndices\<close> does.
\<close>

definition index_arg :: "json \<Rightarrow> error + int option" where
  "index_arg a =
     (case a of
        JNull \<Rightarrow> Inr None
      | JInt i \<Rightarrow> Inr (Some i)
      | JBool b \<Rightarrow> Inr (Some (if b then 1 else 0))
      | _ \<Rightarrow> Inl TypeError)"

definition slice_args :: "json list \<Rightarrow> error + (json \<times> json \<times> json)" where
  "slice_args args =
     (case args of
        [stop] \<Rightarrow> Inr (JNull, stop, JNull)
      | [start, stop] \<Rightarrow> Inr (start, stop, JNull)
      | [start, stop, step] \<Rightarrow> Inr (start, stop, step)
      | _ \<Rightarrow> Inl TypeError)"

definition adjust_forward :: "int \<Rightarrow> int \<Rightarrow> int" where
  "adjust_forward n i = (if i < 0 then max 0 (i + n) else min i n)"

definition adjust_backward :: "int \<Rightarrow> int \<Rightarrow> int" where
  "adjust_backward n i = (if i < 0 then max (- 1) (i + n) else min i (n - 1))"

definition slice_indices :: "int \<Rightarrow> int option \<Rightarrow> int option \<Rightarrow> int \<Rightarrow> int list" where
  "slice_indices n start stop step =
     (if 0 < step then
        (let lo = (case start of None \<Rightarrow> 0 | Some i \<Rightarrow> adjust_forward n i);
             hi = (case stop of None \<Rightarrow> n | Some i \<Rightarrow> adjust_forward n i);
             count = (if lo < hi then nat ((hi - lo - 1) div step + 1) else 0)
         in map (\<lambda>k. lo + int k * step) [0 ..< count])
      else
        (let lo = (case start of None \<Rightarrow> n - 1 | Some i \<Rightarrow> adjust_backward n i);
             hi = (case stop of None \<Rightarrow> - 1 | Some i \<Rightarrow> adjust_backward n i);
             count = (if hi < lo then nat ((lo - hi - 1) div (- step) + 1) else 0)
         in map (\<lambda>k. lo + int k * step) [0 ..< count]))"

definition str_slice :: "string \<Rightarrow> json list \<Rightarrow> error + string" where
  "str_slice s args =
     and_then (slice_args args) (\<lambda>(start, stop, step).
     and_then (index_arg step) (\<lambda>step'.
       if step' = Some 0 then Inl ValueError
       else
         and_then (index_arg start) (\<lambda>start'.
         and_then (index_arg stop) (\<lambda>stop'.
           Inr (map (\<lambda>i. s ! nat i)
                  (slice_indices (int (length s)) start' stop'
                     (case step' of None \<Rightarrow> 1 | Some k \<Rightarrow> k)))))))"

text \<open>
  \<^verbatim>\<open>unescape_lt_amp(v[slice(*args)])\<close> before the unescape: only a string gives a
  string. A list is sliced to a list, which \<^verbatim>\<open>re.sub\<close> refuses; a dict and the
  scalars cannot be sliced (a dict subscripted by a slice raises \<^verbatim>\<open>TypeError\<close> up to
  Python 3.11 and \<^verbatim>\<open>KeyError\<close> from 3.12; the model says \<^verbatim>\<open>TypeError\<close>).
\<close>

definition sliced_text :: "json \<Rightarrow> json list \<Rightarrow> error + string" where
  "sliced_text v args =
     (case v of
        JStr s \<Rightarrow> str_slice s args
      | JList xs \<Rightarrow> and_then (str_slice (replicate (length xs) CHR ''x'') args) (\<lambda>_. Inl TypeError)
      | _ \<Rightarrow> and_then (slice_args args) (\<lambda>_. Inl TypeError))"

subsection \<open>Numbers as text\<close>

definition digit_char :: "nat \<Rightarrow> char" where
  "digit_char d = char_of (48 + d)"

fun show_nat :: "nat \<Rightarrow> string" where
  "show_nat n = (if n < 10 then [digit_char n] else show_nat (n div 10) @ [digit_char (n mod 10)])"

declare show_nat.simps [simp del]

definition show_int :: "int \<Rightarrow> string" where
  "show_int i = (if i < 0 then CHR ''-'' # show_nat (nat (- i)) else show_nat (nat i))"

text \<open>\<^verbatim>\<open>str(v)\<close>.\<close>

definition py_str :: "builtins \<Rightarrow> json \<Rightarrow> string" where
  "py_str B v =
     (case v of
        JStr s \<Rightarrow> s
      | JInt i \<Rightarrow> show_int i
      | JBool b \<Rightarrow> (if b then ''True'' else ''False'')
      | JNull \<Rightarrow> ''None''
      | JFloat f \<Rightarrow>
          (case f of Fin r \<Rightarrow> py_repr B v | PosInf \<Rightarrow> ''inf'' | NegInf \<Rightarrow> ''-inf'' | NaN \<Rightarrow> ''nan'')
      | _ \<Rightarrow> py_repr B v)"

text \<open>
  Rounding to the nearest integer, ties to even, of a rational that is not negative.
\<close>

definition round_half_even :: "rat \<Rightarrow> nat" where
  "round_half_even q =
     (let f = \<lfloor>q\<rfloor>; r = q - of_int f
      in nat (if r < 1 / 2 then f else if 1 / 2 < r then f + 1 else if even f then f else f + 1))"

text \<open>
  \<^verbatim>\<open>"{:.2f}".format(x)\<close> followed by the percent sign, for a finite \<open>x\<close>: the sign,
  the integer part, a point and exactly two decimal digits.
\<close>

definition fixed2_percent :: "rat \<Rightarrow> string" where
  "fixed2_percent x =
     (let n = round_half_even (\<bar>x\<bar> * 100)
      in (if x < 0 then ''-'' else '''') @ show_nat (n div 100) @ ''.''
           @ [digit_char (n mod 100 div 10), digit_char (n mod 10)] @ ''%'')"

text \<open>
  \<^verbatim>\<open>"{:.2%}".format(v)\<close>: a number is multiplied by 100 and printed with two
  decimals; a string raises \<^verbatim>\<open>ValueError\<close>, \<^verbatim>\<open>None\<close>, a list and a dict raise
  \<^verbatim>\<open>TypeError\<close>.
\<close>

definition format_percent :: "json \<Rightarrow> error + string" where
  "format_percent v =
     (case v of
        JInt i \<Rightarrow> Inr (fixed2_percent (of_int i * 100))
      | JBool b \<Rightarrow> Inr (fixed2_percent (if b then 100 else 0))
      | JFloat f \<Rightarrow>
          (case f of
             Fin r \<Rightarrow> Inr (fixed2_percent (r * 100))
           | PosInf \<Rightarrow> Inr ''inf%''
           | NegInf \<Rightarrow> Inr ''-inf%''
           | NaN \<Rightarrow> Inr ''nan%'')
      | JStr s \<Rightarrow> Inl ValueError
      | _ \<Rightarrow> Inl TypeError)"

section \<open>The extraction functions\<close>

text \<open>
  \<^verbatim>\<open>unescape_lt_amp\<close>: \<^verbatim>\<open>lt_amp_re.sub(lt_amp_replacement, s)\<close> with the
  pattern \<^verbatim>\<open>&(amp|lt);\<close>. The matches are found left to right and do not overlap;
  the text put in for a match is not scanned again.
\<close>

fun unescape_lt_amp :: "string \<Rightarrow> string" where
  "unescape_lt_amp [] = []"
| "unescape_lt_amp (c # cs) =
     (if take 5 (c # cs) = ''&amp;'' then CHR ''&'' # unescape_lt_amp (drop 4 cs)
      else if take 4 (c # cs) = ''&lt;'' then CHR ''<'' # unescape_lt_amp (drop 3 cs)
      else c # unescape_lt_amp cs)"

text \<open>
  The expression \<^verbatim>\<open>unescape_lt_amp(response["text"][slice(*(it["indices"]))])\<close>
  of \<^verbatim>\<open>text_under\<close> and of \<^verbatim>\<open>replacement\<close>, evaluated left to right.
\<close>

definition annotation_text :: "json \<Rightarrow> json \<Rightarrow> error + string" where
  "annotation_text response it =
     and_then (py_getitem response ''text'') (\<lambda>t.
     and_then (py_getitem it ''indices'') (\<lambda>idx.
     and_then (py_iter idx) (\<lambda>args.
     and_then (sliced_text t args) (\<lambda>s.
       Inr (unescape_lt_amp s)))))"

text \<open>\<^verbatim>\<open>response["entities"].get(ann_type, [])\<close>, made ready for a loop.\<close>

definition annotations_of :: "string \<Rightarrow> json \<Rightarrow> error + json list" where
  "annotations_of ann_type response =
     and_then (py_getitem response ''entities'') (\<lambda>ents.
     and_then (py_get ents ann_type (JList [])) (\<lambda>v. py_iter v))"

definition text_under :: "string \<Rightarrow> string \<Rightarrow> json \<Rightarrow> error + string" where
  "text_under ann_type separator response =
     and_then (annotations_of ann_type response) (\<lambda>its.
     and_then (map_result (annotation_text response) its) (\<lambda>parts.
       Inr (join separator parts)))"

subsection \<open>Templates\<close>

text \<open>
  \<^verbatim>\<open>template_re = \[(.*?)\]|(\w[\w-]*)(?:\s+(as\s+%))?\<close>. A match is its three
  groups (\<open>None\<close> for a group that took no part) and what is left of the string.
  The first alternative is a bracket, any characters but a newline up to the first
  closing bracket; the second a word, with the modifier when it follows.
\<close>

type_synonym groups = "string option \<times> string option \<times> string option"

definition match_literal :: "string \<Rightarrow> (groups \<times> string) option" where
  "match_literal s =
     (case s of
        [] \<Rightarrow> None
      | c # cs \<Rightarrow>
          if c = CHR ''['' then
            (case dropWhile (\<lambda>x. x \<noteq> CHR '']'' \<and> x \<noteq> CHR 0x0A) cs of
               [] \<Rightarrow> None
             | d # ds \<Rightarrow>
                 if d = CHR '']''
                 then Some ((Some (takeWhile (\<lambda>x. x \<noteq> CHR '']'' \<and> x \<noteq> CHR 0x0A) cs), None, None), ds)
                 else None)
          else None)"

definition match_modifier :: "string \<Rightarrow> (string \<times> string) option" where
  "match_modifier s =
     (let a = dropWhile is_space s
      in if takeWhile is_space s \<noteq> [] \<and> take 2 a = ''as'' then
           (let b = drop 2 a; p = dropWhile is_space b
            in if takeWhile is_space b \<noteq> [] \<and> take 1 p = ''%''
               then Some (''as'' @ takeWhile is_space b @ ''%'', drop 1 p)
               else None)
         else None)"

definition match_feature :: "string \<Rightarrow> (groups \<times> string) option" where
  "match_feature s =
     (case s of
        [] \<Rightarrow> None
      | c # cs \<Rightarrow>
          if is_word c then
            (let name = c # takeWhile (\<lambda>x. is_word x \<or> x = CHR ''-'') cs;
                 after = dropWhile (\<lambda>x. is_word x \<or> x = CHR ''-'') cs
             in case match_modifier after of
                  Some (m, rest) \<Rightarrow> Some ((None, Some name, Some m), rest)
                | None \<Rightarrow> Some ((None, Some name, None), after))
          else None)"

definition match_template :: "string \<Rightarrow> (groups \<times> string) option" where
  "match_template s =
     (case match_literal s of Some m \<Rightarrow> Some m | None \<Rightarrow> match_feature s)"

text \<open>
  The pieces \<^verbatim>\<open>template_re.sub\<close> cuts a template into: a character outside every
  match, copied as it is, or a match, handed to the replacement function.
\<close>

datatype piece = Verbatim char | Match groups

lemma match_literal_shorter: "match_literal s = Some (g, rest) \<Longrightarrow> length rest < length s"
proof -
  assume m: "match_literal s = Some (g, rest)"
  then obtain c cs where s: "s = c # cs"
    by (cases s) (auto simp add: match_literal_def)
  let ?P = "\<lambda>x. x \<noteq> CHR '']'' \<and> x \<noteq> CHR 0x0A"
  from m s obtain d where d: "dropWhile ?P cs = d # rest"
    by (auto simp add: match_literal_def split: if_splits list.splits)
  have "length (dropWhile ?P cs) \<le> length cs"
    by (rule length_dropWhile_le)
  with d s show ?thesis by simp
qed

lemma match_modifier_shorter: "match_modifier s = Some (m, rest) \<Longrightarrow> length rest \<le> length s"
proof -
  assume m: "match_modifier s = Some (m, rest)"
  let ?a = "dropWhile is_space s"
  let ?p = "dropWhile is_space (drop 2 ?a)"
  from m have r: "rest = drop 1 ?p"
    by (auto simp add: match_modifier_def Let_def split: if_splits)
  have "length ?p \<le> length (drop 2 ?a)" by (rule length_dropWhile_le)
  moreover have "length ?a \<le> length s" by (rule length_dropWhile_le)
  ultimately show ?thesis using r by simp
qed

lemma match_feature_shorter: "match_feature s = Some (g, rest) \<Longrightarrow> length rest < length s"
proof -
  assume m: "match_feature s = Some (g, rest)"
  then obtain c cs where s: "s = c # cs"
    by (cases s) (auto simp add: match_feature_def)
  let ?after = "dropWhile (\<lambda>x. is_word x \<or> x = CHR ''-'') cs"
  have a: "length ?after \<le> length cs" by (rule length_dropWhile_le)
  from m s have "rest = ?after \<or> (\<exists>md. match_modifier ?after = Some (md, rest))"
    by (auto simp add: match_feature_def Let_def split: if_splits option.splits)
  then have "length rest \<le> length ?after"
    using match_modifier_shorter by auto
  with a s show ?thesis by simp
qed

lemma match_template_shorter: "match_template s = Some (g, rest) \<Longrightarrow> length rest < length s"
  by (auto simp add: match_template_def split: option.splits
        dest: match_literal_shorter match_feature_shorter)

function template_pieces :: "string \<Rightarrow> piece list" where
  "template_pieces [] = []"
| "template_pieces (c # cs) =
     (case match_template (c # cs) of
        Some (g, rest) \<Rightarrow> Match g # template_pieces rest
      | None \<Rightarrow> Verbatim c # template_pieces cs)"
  by pat_completeness auto
termination
  by (relation "measure length") (auto dest: match_template_shorter)

declare template_pieces.simps [simp del]

text \<open>
  The function \<^verbatim>\<open>replacement\<close> inside \<^verbatim>\<open>response_to_column\<close>, for one
  annotation \<open>ann\<close> of \<open>response\<close>.
\<close>

definition replacement :: "builtins \<Rightarrow> json \<Rightarrow> json \<Rightarrow> groups \<Rightarrow> error + string" where
  "replacement B response ann m =
     (case m of (literal, feature, modifier) \<Rightarrow>
        if literal \<noteq> None \<and> literal \<noteq> Some [] then Inr (the literal)
        else if feature = Some ''text'' then annotation_text response ann
        else
          and_then (py_contains feature ann) (\<lambda>present.
            if present then
              and_then (py_getitem_opt ann feature) (\<lambda>v.
                if modifier = Some ''as %'' then format_percent v else Inr (py_str B v))
            else Inr ((case feature of None \<Rightarrow> ''None'' | Some f \<Rightarrow> f) @ '' not found'')))"

definition substitute_piece :: "(groups \<Rightarrow> error + string) \<Rightarrow> piece \<Rightarrow> error + string" where
  "substitute_piece repl p = (case p of Verbatim c \<Rightarrow> Inr [c] | Match g \<Rightarrow> repl g)"

text \<open>\<^verbatim>\<open>template_re.sub(replacement, template)\<close>.\<close>

definition template_sub :: "(groups \<Rightarrow> error + string) \<Rightarrow> string \<Rightarrow> error + string" where
  "template_sub repl template =
     and_then (map_result (substitute_piece repl) (template_pieces template)) (\<lambda>parts.
       Inr (concat parts))"

definition response_to_column ::
  "builtins \<Rightarrow> string \<Rightarrow> string \<Rightarrow> string \<Rightarrow> json \<Rightarrow> error + string" where
  "response_to_column B ann_type template separator response =
     and_then (annotations_of ann_type response) (\<lambda>anns.
     and_then (map_result (\<lambda>ann. template_sub (replacement B response ann) template) anns)
       (\<lambda>chunks. Inr (join separator chunks)))"

subsection \<open>Column definitions\<close>

text \<open>
  \<^verbatim>\<open>ann_type_re.match(col.strip()).groups()\<close> with
  \<^verbatim>\<open>ann_type_re = ^(\S+)(?:\s+(.*))?$\<close>: the annotation type is the text up to the
  first whitespace, the rest what follows the whitespace; the rest cannot hold a
  newline. \<open>None\<close>: no match, and \<^verbatim>\<open>.groups()\<close> raises \<^verbatim>\<open>AttributeError\<close>.
\<close>

definition match_column :: "string \<Rightarrow> (string \<times> string option) option" where
  "match_column col =
     (let s = strip col;
          ann_type = takeWhile (\<lambda>c. \<not> is_space c) s;
          after = dropWhile (\<lambda>c. \<not> is_space c) s;
          rest = dropWhile is_space after
      in if ann_type = [] then None
         else if after = [] then Some (ann_type, None)
         else if CHR 0x0A \<in> set rest then None
         else Some (ann_type, Some rest))"

text \<open>The three special functions of \<^verbatim>\<open>output_function\<close>, and the function itself.\<close>

definition present_fn :: "string \<Rightarrow> json \<Rightarrow> error + string" where
  "present_fn ann_type resp =
     and_then (py_getitem resp ''entities'') (\<lambda>ents.
     and_then (py_get ents ann_type (JList [])) (\<lambda>v.
     and_then (py_len v) (\<lambda>n.
       Inr (show_int (if n > 0 then 1 else 0)))))"

definition count_fn :: "string \<Rightarrow> json \<Rightarrow> error + string" where
  "count_fn ann_type resp =
     and_then (py_getitem resp ''entities'') (\<lambda>ents.
     and_then (py_get ents ann_type (JList [])) (\<lambda>v.
     and_then (py_len v) (\<lambda>n.
       Inr (show_int (int n)))))"

definition output_function ::
  "builtins \<Rightarrow> string \<Rightarrow> (string \<rightharpoonup> string) \<Rightarrow> error + (string \<times> (json \<Rightarrow> error + string))" where
  "output_function B col type_to_sel =
     (case match_column col of
        None \<Rightarrow> Inl AttributeError
      | Some (ann_type0, rest) \<Rightarrow>
          (let (ann_selector, ann_type) =
                 (if CHR '':'' \<in> set ann_type0
                  then (ann_type0, drop 1 (dropWhile (\<lambda>c. c \<noteq> CHR '':'') ann_type0))
                  else (case type_to_sel ann_type0 of
                          Some sel \<Rightarrow> (sel, ann_type0)
                        | None \<Rightarrow> ('':'' @ ann_type0, ann_type0)));
               fn = (if rest = None \<or> rest = Some [] \<or> rest = Some ''text''
                     then text_under ann_type '';''
                     else if rest = Some ''present?'' then present_fn ann_type
                     else if rest = Some ''#count'' then count_fn ann_type
                     else response_to_column B ann_type (the rest) '';'')
           in Inr (ann_selector, fn)))"

section \<open>The data model of a service response\<close>

text \<open>
  A response of the shape the service documents: the text, and for each annotation type
  the annotations in the order the service returned them; an annotation is its pair of
  offsets and its features. \<open>encode_response\<close> is the JSON document the program gets: an
  annotation is one object, the key \<^verbatim>\<open>indices\<close> beside the features.
\<close>

record annotation =
  indices :: "int \<times> int"
  features :: "(string \<times> json) list"

record service_response =
  full_text :: string
  entities :: "(string \<times> annotation list) list"

definition annotation_items :: "annotation \<Rightarrow> (string \<times> json) list" where
  "annotation_items a =
     (''indices'', JList [JInt (fst (indices a)), JInt (snd (indices a))]) # features a"

definition encode_annotation :: "annotation \<Rightarrow> json" where
  "encode_annotation a = JObj (annotation_items a)"

definition encode_response :: "service_response \<Rightarrow> json" where
  "encode_response r =
     JObj [(''text'', JStr (full_text r)),
           (''entities'', JObj (map (\<lambda>e. (fst e, JList (map encode_annotation (snd e))))
                                  (entities r)))]"

definition annotations_typed :: "service_response \<Rightarrow> string \<Rightarrow> annotation list" where
  "annotations_typed r ann_type =
     (case map_of (entities r) ann_type of None \<Rightarrow> [] | Some anns \<Rightarrow> anns)"

text \<open>The Python slice \<^verbatim>\<open>s[a:b]\<close>.\<close>

definition text_span :: "string \<Rightarrow> int \<times> int \<Rightarrow> string" where
  "text_span s ix =
     map (\<lambda>i. s ! nat i) (slice_indices (int (length s)) (Some (fst ix)) (Some (snd ix)) 1)"


text \<open>The annotation type a column definition names: what follows the first colon.\<close>

definition column_type :: "string \<Rightarrow> string" where
  "column_type t =
     (if CHR '':'' \<in> set t then drop 1 (dropWhile (\<lambda>c. c \<noteq> CHR '':'') t) else t)"

text \<open>Values used as concrete inputs below.\<close>

definition plain_builtins :: builtins where
  "plain_builtins = \<lparr>py_repr = (\<lambda>v. ''<repr>''), json_dumps = (\<lambda>v. ''<json>'')\<rparr>"

definition person1 :: annotation where
  "person1 = \<lparr>indices = (0, 17),
              features = [(''kind'', JStr ''fact''), (''score'', JFloat (Fin (8532 / 10000)))]\<rparr>"

definition person2 :: annotation where
  "person2 = \<lparr>indices = (22, 26), features = [(''n'', JInt 3)]\<rparr>"

definition sample_response :: service_response where
  "sample_response =
     \<lparr>full_text = ''A &amp; B &lt;tag&gt; went'',
      entities = [(''Person'', [person1, person2])]\<rparr>"


text \<open>
  A column definition compiled by \<open>output_function\<close> and applied to a response.
\<close>

definition column_value ::
  "builtins \<Rightarrow> string \<Rightarrow> (string \<rightharpoonup> string) \<Rightarrow> json \<Rightarrow> error + string" where
  "column_value B col type_to_sel resp =
     and_then (output_function B col type_to_sel) (\<lambda>(sel, fn). fn resp)"

definition quote_response :: service_response where
  "quote_response =
     \<lparr>full_text = ''A &amp; B &lt;tag&gt;'',
      entities = [(''Quote'', [\<lparr>indices = (0, 21), features = []\<rparr>])]\<rparr>"

section \<open>The row pipeline\<close>

text \<open>
  What the program reads of the response to one \<^verbatim>\<open>session.post\<close>: status and
  headers, what \<^verbatim>\<open>response.json()\<close> gives (the document, or
  \<^verbatim>\<open>requests.JSONDecodeError\<close> with its message), and \<^verbatim>\<open>response.text\<close>.
\<close>

datatype decoded = Json json | NotJson string

record api_response =
  head :: http_response
  json_result :: decoded
  body_text :: string

text \<open>
  The service is the environment of the run: a script of exchanges, one for each
  request the program makes. An exchange gives the value of
  \<^verbatim>\<open>time.perf_counter()\<close> before the request (line 270), what the request
  came to (a response, or a \<^verbatim>\<open>requests.RequestException\<close> with its message), and
  the value of \<^verbatim>\<open>time.perf_counter()\<close> in the call of \<open>handle_rate_limit\<close>
  that follows.
\<close>

datatype post_result = Responded api_response | RequestFailed string

record exchange =
  started_at :: rat
  outcome :: post_result
  clock_after :: rat



















definition is_hit :: "exchange \<Rightarrow> bool" where
  "is_hit ex =
     (case outcome ex of Responded response \<Rightarrow> rate_limited (head response) | RequestFailed msg \<Rightarrow> False)"

definition hits :: "exchange list \<Rightarrow> nat" where
  "hits exs = length (filter is_hit exs)"

text \<open>The last response among some exchanges, if there is one.\<close>

definition last_responded :: "exchange list \<Rightarrow> api_response option" where
  "last_responded exs =
     foldl (\<lambda>acc ex. case outcome ex of Responded response \<Rightarrow> Some response | RequestFailed msg \<Rightarrow> acc)
       None exs"

text \<open>No JSON document of the script is false in Python's truth test.\<close>

definition payload_truthy :: "exchange \<Rightarrow> bool" where
  "payload_truthy ex =
     (case outcome ex of
        Responded response \<Rightarrow> (case json_result response of Json j \<Rightarrow> truthy j | NotJson msg \<Rightarrow> True)
      | RequestFailed msg \<Rightarrow> True)"

text \<open>The exceptions the extraction functions raise on a document of any shape.\<close>

definition data_error :: "error \<Rightarrow> bool" where
  "data_error e = (e = KeyError \<or> e = TypeError \<or> e = AttributeError \<or> e = ValueError)"




definition error_response :: http_response where
  "error_response =
     \<lparr>status_code = 500,
      headers = [''x-gate-rate-limit-calls'' \<mapsto> ''9'', ''x-gate-rate-limit-reset'' \<mapsto> ''90'']\<rparr>"

definition error_exchange :: exchange where
  "error_exchange =
     \<lparr>started_at = 1,
      outcome = Responded \<lparr>head = error_response,
                            json_result = Json (JObj [(''message'', JStr ''boom'')]),
                            body_text = []\<rparr>,
      clock_after = 2\<rparr>"

definition failed_exchange :: exchange where
  "failed_exchange = \<lparr>started_at = 1, outcome = RequestFailed ''timed out'', clock_after = 2\<rparr>"




section \<open>Properties of the rate limiter\<close>

lemma py_int_examples:
  "py_int ''0'' = Some 0" "py_int ''10'' = Some 10" "py_int ''100'' = Some 100"
  by code_simp+

lemma py_float_30: "py_float ''30'' = Some (Fin 30)"
  by code_simp

text \<open>
  C3. A response with status 429 or 402 whose \<^verbatim>\<open>retry-after\<close> header reads as a
  float makes \<open>handle_rate_limit\<close> return that float, whatever the other headers
  and the clock are, and the state is returned as it was
  (\<open>prev_rate_limit_remaining\<close> included).
\<close>

theorem retry_after_verbatim:
  assumes "status_code response = 429 \<or> status_code response = 402"
    and "headers response ''retry-after'' = Some s"
    and "py_float s = Some d"
  shows "handle_rate_limit st response now = (st, Inr d)"
  using assms by (simp add: handle_rate_limit_def rate_limited_def)

theorem retry_after_verbatim_witness:
  "(status_code retry_response = 429 \<or> status_code retry_response = 402)
   \<and> headers retry_response ''retry-after'' = Some ''30''
   \<and> py_float ''30'' = Some (Fin 30)
   \<and> handle_rate_limit \<lparr>prev_rate_limit_remaining = 7, request_start_time = Some 3\<rparr>
        retry_response 5
      = (\<lparr>prev_rate_limit_remaining = 7, request_start_time = Some 3\<rparr>, Inr (Fin 30))"
  using py_float_30
    retry_after_verbatim [of retry_response "''30''" "Fin 30"
      "\<lparr>prev_rate_limit_remaining = 7, request_start_time = Some 3\<rparr>" 5]
  by (simp add: retry_response_def)

text \<open>
  C4. A response that is not rate limited and has no
  \<^verbatim>\<open>x-gate-rate-limit-calls\<close> header: \<open>handle_rate_limit\<close> raises
  \<^verbatim>\<open>KeyError\<close>, it does not return 0.
\<close>

theorem absent_header_raises:
  "handle_rate_limit init_state bare_response 0 = (init_state, Inl KeyError)"
  by (simp add: handle_rate_limit_def rate_limited_def bare_response_def)




text \<open>
  C10. A response that is not a 429/402 with \<^verbatim>\<open>retry-after\<close>, whose remaining-calls
  header reads as the integer 0 and whose reset header is numeric: the pacing
  computation divides by the remaining count, and \<open>handle_rate_limit\<close> raises
  \<^verbatim>\<open>ZeroDivisionError\<close> (after storing the 0 in the state).
\<close>

theorem zero_remaining_raises:
  assumes "\<not> ((status_code r = 429 \<or> status_code r = 402) \<and> headers r ''retry-after'' \<noteq> None)"
    and "headers r ''x-gate-rate-limit-calls'' = Some c" and "py_int c = Some 0"
    and "headers r ''x-gate-rate-limit-reset'' = Some t" and "py_int t = Some reset_seconds"
  shows "handle_rate_limit st r now
           = (st\<lparr>prev_rate_limit_remaining := 0\<rparr>, Inl ZeroDivisionError)"
  using assms
  by (auto simp add: handle_rate_limit_def rate_limited_def Let_def)

theorem zero_remaining_raises_witness:
  "\<not> ((status_code exhausted_response = 429 \<or> status_code exhausted_response = 402)
        \<and> headers exhausted_response ''retry-after'' \<noteq> None)
   \<and> headers exhausted_response ''x-gate-rate-limit-calls'' = Some ''0''
   \<and> py_int ''0'' = Some 0
   \<and> headers exhausted_response ''x-gate-rate-limit-reset'' = Some ''100''
   \<and> py_int ''100'' = Some 100
   \<and> handle_rate_limit init_state exhausted_response 1
      = (\<lparr>prev_rate_limit_remaining = 0, request_start_time = None\<rparr>, Inl ZeroDivisionError)"
  using py_int_examples
    zero_remaining_raises [of exhausted_response "''0''" "''100''" 100 init_state 1]
  by (simp add: exhausted_response_def init_state_def)

section \<open>Properties of the extraction functions\<close>

subsection \<open>Auxiliary facts\<close>

lemma and_then_Inr [simp]: "and_then (Inr x) f = f x"
  by (simp add: and_then_def)

lemma and_then_Inl [simp]: "and_then (Inl e) f = Inl e"
  by (simp add: and_then_def)

lemma map_result_all:
  "(\<And>x. x \<in> set xs \<Longrightarrow> f x = Inr (g x)) \<Longrightarrow> map_result f xs = Inr (map g xs)"
  by (induction xs) auto


lemma show_int_small: "show_int 0 = ''0''" "show_int 1 = ''1''"
  by code_simp+

lemma map_of_encoded:
  "map_of (map (\<lambda>e. (fst e, JList (map encode_annotation (snd e)))) ents) k
     = map_option (\<lambda>anns. JList (map encode_annotation anns)) (map_of ents k)"
  by (induction ents) auto

lemma annotation_text_encoded:
  "annotation_text (encode_response r) (encode_annotation a)
     = Inr (unescape_lt_amp (text_span (full_text r) (indices a)))"
  by (simp add: annotation_text_def encode_response_def encode_annotation_def
        annotation_items_def py_getitem_def py_iter_def sliced_text_def str_slice_def
        slice_args_def index_arg_def text_span_def)

lemma annotations_of_encoded:
  "annotations_of ann_type (encode_response r)
     = Inr (map encode_annotation (annotations_typed r ann_type))"
  by (simp add: annotations_of_def encode_response_def py_getitem_def py_get_def
        map_of_encoded annotations_typed_def py_iter_def split: option.splits)

lemma map_result_map:
  "(\<And>x. x \<in> set xs \<Longrightarrow> f (h x) = Inr (g x)) \<Longrightarrow> map_result f (map h xs) = Inr (map g xs)"
  by (induction xs) auto

lemma text_under_encoded:
  "text_under ann_type sep (encode_response r)
     = Inr (join sep (map (\<lambda>a. unescape_lt_amp (text_span (full_text r) (indices a)))
                       (annotations_typed r ann_type)))"
  by (simp add: text_under_def annotations_of_encoded map_result_map annotation_text_encoded)

lemma py_len_encoded:
  "and_then (py_getitem (encode_response r) ''entities'') (\<lambda>ents. py_get ents ann_type (JList []))
     = Inr (JList (map encode_annotation (annotations_typed r ann_type)))"
  by (simp add: encode_response_def py_getitem_def py_get_def
        map_of_encoded annotations_typed_def split: option.splits)

lemma present_fn_encoded:
  "present_fn ann_type (encode_response r)
     = Inr (if annotations_typed r ann_type \<noteq> [] then ''1'' else ''0'')"
  by (simp add: present_fn_def encode_response_def py_getitem_def py_get_def py_len_def
        map_of_encoded annotations_typed_def show_int_small split: option.splits)

lemma count_fn_encoded:
  "count_fn ann_type (encode_response r)
     = Inr (show_nat (length (annotations_typed r ann_type)))"
  by (simp add: count_fn_def encode_response_def py_getitem_def py_get_def py_len_def
        map_of_encoded annotations_typed_def show_int_def split: option.splits)

lemma text_span_inside:
  assumes "0 \<le> a" "a \<le> b" "b \<le> int (length s)"
  shows "text_span s (a, b) = take (nat (b - a)) (drop (nat a) s)"
proof (rule nth_equalityI)
  show "length (text_span s (a, b)) = length (take (nat (b - a)) (drop (nat a) s))"
    using assms
    by (auto simp add: text_span_def slice_indices_def adjust_forward_def Let_def)
next
  fix i
  assume "i < length (text_span s (a, b))"
  then have i: "i < nat (b - a)"
    using assms
    by (auto simp add: text_span_def slice_indices_def adjust_forward_def Let_def split: if_splits)
  then have "nat (a + int i) = nat a + i"
    using assms by (simp add: nat_add_distrib)
  with i show "text_span s (a, b) ! i = take (nat (b - a)) (drop (nat a) s) ! i"
    using assms
    by (auto simp add: text_span_def slice_indices_def adjust_forward_def Let_def)
qed

lemma digit_val_char: "d < 10 \<Longrightarrow> digit_val (digit_char d) = d"
  by (simp add: digit_val_def digit_char_def)

lemma digit_chars:
  "digit_char 0 = CHR ''0''" "digit_char 1 = CHR ''1''" "digit_char 2 = CHR ''2''"
  "digit_char 3 = CHR ''3''" "digit_char 4 = CHR ''4''" "digit_char 5 = CHR ''5''"
  "digit_char 6 = CHR ''6''" "digit_char 7 = CHR ''7''" "digit_char 8 = CHR ''8''"
  "digit_char 9 = CHR ''9''" "digit_char (Suc 0) = CHR ''1''"
  by code_simp+

lemma is_digit_char: "d < 10 \<Longrightarrow> is_digit (digit_char d)"
proof -
  assume "d < 10"
  then have "d = 0 \<or> d = 1 \<or> d = 2 \<or> d = 3 \<or> d = 4 \<or> d = 5 \<or> d = 6 \<or> d = 7 \<or> d = 8 \<or> d = 9"
    by arith
  then show ?thesis
    by (elim disjE) (simp_all add: is_digit_def digit_chars)
qed

lemma digits_nat_snoc: "digits_nat (ds @ [c]) = 10 * digits_nat ds + digit_val c"
  by (simp add: digits_nat_def)

lemma show_nat_decimal: "digits_nat (show_nat n) = n \<and> all_digits (show_nat n)"
proof (induction n rule: show_nat.induct)
  case (1 n)
  show ?case
  proof (cases "n < 10")
    case True
    then show ?thesis
      by (simp add: show_nat.simps [of n] digits_nat_def digit_val_char is_digit_char all_digits_def)
  next
    case False
    with 1 have ih: "digits_nat (show_nat (n div 10)) = n div 10" "all_digits (show_nat (n div 10))"
      by auto
    have "n mod 10 < 10" by simp
    with False ih show ?thesis
      by (simp add: show_nat.simps [of n] digits_nat_snoc digit_val_char is_digit_char all_digits_def)
  qed
qed

lemma round_half_even_close:
  assumes "0 \<le> q"
  shows "\<bar>q - of_nat (round_half_even q)\<bar> \<le> 1 / 2"
proof -
  have f: "0 \<le> \<lfloor>q\<rfloor>" using assms by simp
  have lo: "of_int \<lfloor>q\<rfloor> \<le> q" and hi: "q < of_int \<lfloor>q\<rfloor> + 1"
    by linarith+
  have n1: "(of_nat (nat \<lfloor>q\<rfloor>) :: rat) = of_int \<lfloor>q\<rfloor>"
    using f by simp
  have n2: "(of_nat (nat (\<lfloor>q\<rfloor> + 1)) :: rat) = of_int \<lfloor>q\<rfloor> + 1"
    using f by (simp add: nat_add_distrib)
  show ?thesis
    using lo hi n1 n2 by (auto simp add: round_half_even_def Let_def)
qed



lemma unescape_no_entity:
  "\<not> is_substring ''&amp;'' s \<Longrightarrow> \<not> is_substring ''&lt;'' s \<Longrightarrow> unescape_lt_amp s = s"
proof (induction s)
  case Nil
  then show ?case by simp
next
  case (Cons c cs)
  from Cons.prems have a: "take 5 (c # cs) \<noteq> ''&amp;''" and b: "take 4 (c # cs) \<noteq> ''&lt;''"
    and c: "\<not> is_substring ''&amp;'' cs" "\<not> is_substring ''&lt;'' cs"
    by (simp_all add: eval_nat_numeral)
  from a b have "unescape_lt_amp (c # cs) = c # unescape_lt_amp cs"
    by (simp only: unescape_lt_amp.simps if_False)
  with Cons.IH c show ?case by simp
qed

lemma unescape_prefix:
  "unescape_lt_amp (''&amp;'' @ s) = ''&'' @ unescape_lt_amp s"
  "unescape_lt_amp (''&lt;'' @ s) = ''<'' @ unescape_lt_amp s"
  by simp_all

text \<open>
  C7, amended. Extracted with the \<^verbatim>\<open>text\<close> feature, the annotation text
  \<^verbatim>\<open>A &amp; B &lt;tag&gt;\<close> renders as \<^verbatim>\<open>A & B <tag&gt;\<close>: an
  \<^verbatim>\<open>&amp;\<close> becomes \<^verbatim>\<open>&\<close>, an \<^verbatim>\<open>&lt;\<close> becomes \<^verbatim>\<open><\<close>,
  and a text in which neither occurs (\<^verbatim>\<open>&gt;\<close> and every other entity) is
  returned as it is.
\<close>

theorem unescape_only_lt_amp:
  "text_under ''Quote'' '';'' (encode_response quote_response) = Inr ''A & B <tag&gt;''
   \<and> column_value B ''Quote text'' Map.empty (encode_response quote_response) = Inr ''A & B <tag&gt;''
   \<and> unescape_lt_amp (''&amp;'' @ s) = ''&'' @ unescape_lt_amp s
   \<and> unescape_lt_amp (''&lt;'' @ s) = ''<'' @ unescape_lt_amp s
   \<and> (\<not> is_substring ''&amp;'' s \<and> \<not> is_substring ''&lt;'' s \<longrightarrow> unescape_lt_amp s = s)"
proof -
  have a: "text_under ''Quote'' '';'' (encode_response quote_response) = Inr ''A & B <tag&gt;''"
    by code_simp
  have m: "match_column ''Quote text'' = Some (''Quote'', Some ''text'')"
    by code_simp
  have b: "column_value B ''Quote text'' Map.empty (encode_response quote_response)
             = Inr ''A & B <tag&gt;''"
    using a by (simp add: column_value_def output_function_def m)
  show ?thesis
    using a b unescape_no_entity [of s] by (simp only: unescape_prefix) blast
qed

theorem unescape_only_lt_amp_witness:
  "\<not> is_substring ''&amp;'' ''x &gt; y &quot;'' \<and> \<not> is_substring ''&lt;'' ''x &gt; y &quot;''
   \<and> unescape_lt_amp ''x &gt; y &quot;'' = ''x &gt; y &quot;''"
proof -
  have h: "\<not> is_substring ''&amp;'' ''x &gt; y &quot;''" "\<not> is_substring ''&lt;'' ''x &gt; y &quot;''"
    by code_simp+
  with unescape_only_lt_amp [of plain_builtins "''x &gt; y &quot;''"] show ?thesis
    by blast
qed

theorem unescape_only_lt_amp_counterexample:
  "text_under ''Quote'' '';'' (encode_response quote_response) \<noteq> Inr ''A & B <tag>''
   \<and> unescape_lt_amp ''A &amp; B &lt;tag&gt;'' = ''A & B <tag&gt;''"
  by code_simp

lemma output_function_result:
  assumes "match_column col = Some (t, rest)"
  shows "\<exists>sel. output_function B col type_to_sel
           = Inr (sel,
                  if rest = None \<or> rest = Some [] \<or> rest = Some ''text''
                  then text_under (column_type t) '';''
                  else if rest = Some ''present?'' then present_fn (column_type t)
                  else if rest = Some ''#count'' then count_fn (column_type t)
                  else response_to_column B (column_type t) (the rest) '';'')"
proof (cases "CHR '':'' \<in> set t")
  case True
  with assms show ?thesis
    by (simp add: output_function_def column_type_def Let_def)
next
  case False
  with assms show ?thesis
    by (cases "type_to_sel t") (simp_all add: output_function_def column_type_def Let_def)
qed

text \<open>
  C8. A column definition whose part after the annotation type is absent or
  \<^verbatim>\<open>text\<close> gives the unescaped text under every annotation of the type, in the
  order of the response, joined with \<^verbatim>\<open>;\<close>; \<^verbatim>\<open>present?\<close> gives
  \<^verbatim>\<open>1\<close> if the response has an annotation of the type and \<^verbatim>\<open>0\<close> if not;
  \<^verbatim>\<open>#count\<close> gives the number of annotations of the type in decimal
  (\<^verbatim>\<open>0\<close> when the type is absent).
\<close>

theorem output_function_kinds:
  assumes "match_column col = Some (t, rest)"
  shows "(rest = None \<or> rest = Some ''text'' \<longrightarrow>
            column_value B col type_to_sel (encode_response r)
              = Inr (join '';'' (map (\<lambda>a. unescape_lt_amp (text_span (full_text r) (indices a)))
                                  (annotations_typed r (column_type t)))))
       \<and> (rest = Some ''present?'' \<longrightarrow>
            column_value B col type_to_sel (encode_response r)
              = Inr (if annotations_typed r (column_type t) = [] then ''0'' else ''1''))
       \<and> (rest = Some ''#count'' \<longrightarrow>
            column_value B col type_to_sel (encode_response r)
              = Inr (show_nat (length (annotations_typed r (column_type t))))
            \<and> digits_nat (show_nat (length (annotations_typed r (column_type t))))
                = length (annotations_typed r (column_type t)))"
proof -
  from output_function_result [OF assms, of B type_to_sel]
  obtain sel where
    "output_function B col type_to_sel
       = Inr (sel,
              if rest = None \<or> rest = Some [] \<or> rest = Some ''text''
              then text_under (column_type t) '';''
              else if rest = Some ''present?'' then present_fn (column_type t)
              else if rest = Some ''#count'' then count_fn (column_type t)
              else response_to_column B (column_type t) (the rest) '';'')"
    by blast
  then show ?thesis
    using show_nat_decimal [of "length (annotations_typed r (column_type t))"]
    by (simp add: column_value_def text_under_encoded present_fn_encoded count_fn_encoded)
qed

lemma match_column_examples:
  "match_column ''Person'' = Some (''Person'', None)"
  "match_column ''x:Person text'' = Some (''x:Person'', Some ''text'')"
  "match_column ''Org present?'' = Some (''Org'', Some ''present?'')"
  "match_column ''Person present?'' = Some (''Person'', Some ''present?'')"
  "match_column ''Org #count'' = Some (''Org'', Some ''#count'')"
  "match_column ''Person #count'' = Some (''Person'', Some ''#count'')"
  by code_simp+

theorem output_function_kinds_witness:
  "match_column ''Person'' = Some (''Person'', None)
   \<and> column_value plain_builtins ''Person'' Map.empty (encode_response sample_response)
       = Inr ''A & B <tag;went''
   \<and> match_column ''x:Person text'' = Some (''x:Person'', Some ''text'')
   \<and> column_value plain_builtins ''x:Person text'' Map.empty (encode_response sample_response)
       = Inr ''A & B <tag;went''
   \<and> match_column ''Org present?'' = Some (''Org'', Some ''present?'')
   \<and> column_value plain_builtins ''Org present?'' Map.empty (encode_response sample_response)
       = Inr ''0''
   \<and> match_column ''Person present?'' = Some (''Person'', Some ''present?'')
   \<and> column_value plain_builtins ''Person present?'' Map.empty (encode_response sample_response)
       = Inr ''1''
   \<and> match_column ''Org #count'' = Some (''Org'', Some ''#count'')
   \<and> column_value plain_builtins ''Org #count'' Map.empty (encode_response sample_response)
       = Inr ''0''
   \<and> match_column ''Person #count'' = Some (''Person'', Some ''#count'')
   \<and> column_value plain_builtins ''Person #count'' Map.empty (encode_response sample_response)
       = Inr ''2''"
proof -
  have ty: "column_type ''Person'' = ''Person''" "column_type ''x:Person'' = ''Person''"
    "column_type ''Org'' = ''Org''"
    by code_simp+
  have an: "annotations_typed sample_response ''Person'' = [person1, person2]"
    "annotations_typed sample_response ''Org'' = []"
    by (simp_all add: annotations_typed_def sample_response_def)
  have sp: "unescape_lt_amp (text_span (full_text sample_response) (indices person1)) = ''A & B <tag''"
    "unescape_lt_amp (text_span (full_text sample_response) (indices person2)) = ''went''"
    by code_simp+
  have sn: "show_nat 0 = ''0''" "show_nat 2 = ''2''" "show_nat (Suc (Suc 0)) = ''2''"
    by code_simp+
  show ?thesis
    using match_column_examples
      output_function_kinds [OF match_column_examples(1), of plain_builtins Map.empty sample_response]
      output_function_kinds [OF match_column_examples(2), of plain_builtins Map.empty sample_response]
      output_function_kinds [OF match_column_examples(3), of plain_builtins Map.empty sample_response]
      output_function_kinds [OF match_column_examples(4), of plain_builtins Map.empty sample_response]
      output_function_kinds [OF match_column_examples(5), of plain_builtins Map.empty sample_response]
      output_function_kinds [OF match_column_examples(6), of plain_builtins Map.empty sample_response]
    by (simp add: ty an sp sn)
qed

subsection \<open>Templates\<close>




















section \<open>Properties of the row pipeline\<close>

subsection \<open>No part of the run but the cap exits\<close>





lemma map_result_error:
  "map_result f xs = Inl e \<Longrightarrow> \<exists>x \<in> set xs. f x = Inl e"
  by (induction xs) (auto split: sum.splits)









lemma hits_Cons: "hits (ex # exs) = (if is_hit ex then 1 else 0) + hits exs"
  by (simp add: hits_def)








lemma data_error_no_exit: "data_error e \<Longrightarrow> e \<noteq> SystemExit n"
  by (auto simp add: data_error_def)

lemma and_then_error:
  "and_then m f = Inl e \<Longrightarrow> m = Inl e \<or> (\<exists>x. m = Inr x \<and> f x = Inl e)"
  by (cases m) simp_all

lemma py_getitem_error: "py_getitem obj k = Inl e \<Longrightarrow> data_error e"
  by (auto simp add: py_getitem_def data_error_def split: json.splits option.splits)

lemma py_get_error: "py_get obj k d = Inl e \<Longrightarrow> data_error e"
  by (auto simp add: py_get_def data_error_def split: json.splits option.splits)

lemma py_iter_error: "py_iter obj = Inl e \<Longrightarrow> data_error e"
  by (auto simp add: py_iter_def data_error_def split: json.splits)

lemma py_len_error: "py_len obj = Inl e \<Longrightarrow> data_error e"
  by (auto simp add: py_len_def data_error_def split: json.splits)

lemma py_contains_error: "py_contains k obj = Inl e \<Longrightarrow> data_error e"
  by (auto simp add: py_contains_def data_error_def split: json.splits option.splits)

lemma py_getitem_opt_error: "py_getitem_opt obj k = Inl e \<Longrightarrow> data_error e"
proof (cases k)
  case None
  assume "py_getitem_opt obj k = Inl e"
  with None show ?thesis
    by (auto simp add: py_getitem_opt_def data_error_def split: json.splits)
next
  case (Some x)
  assume "py_getitem_opt obj k = Inl e"
  with Some show ?thesis
    by (simp add: py_getitem_opt_def py_getitem_error)
qed

lemma format_percent_error: "format_percent v = Inl e \<Longrightarrow> data_error e"
  by (auto simp add: format_percent_def data_error_def split: json.splits pyfloat.splits)

lemma index_arg_error: "index_arg a = Inl e \<Longrightarrow> data_error e"
  by (auto simp add: index_arg_def data_error_def split: json.splits)

lemma slice_args_error: "slice_args args = Inl e \<Longrightarrow> data_error e"
  by (auto simp add: slice_args_def data_error_def split: list.splits)

lemma str_slice_error: "str_slice s args = Inl e \<Longrightarrow> data_error e"
  by (auto simp add: str_slice_def data_error_def [of ValueError] split: if_splits prod.splits
        dest!: and_then_error intro: index_arg_error slice_args_error)

lemma sliced_text_error: "sliced_text v args = Inl e \<Longrightarrow> data_error e"
  by (auto simp add: sliced_text_def data_error_def [of TypeError] split: json.splits
        dest!: and_then_error intro: str_slice_error slice_args_error)

lemma annotation_text_error: "annotation_text response it = Inl e \<Longrightarrow> data_error e"
  by (auto simp add: annotation_text_def
        dest!: and_then_error intro: py_getitem_error py_iter_error sliced_text_error)

lemma annotations_of_error: "annotations_of t response = Inl e \<Longrightarrow> data_error e"
  by (auto simp add: annotations_of_def
        dest!: and_then_error intro: py_getitem_error py_get_error py_iter_error)

lemma text_under_error: "text_under t sep response = Inl e \<Longrightarrow> data_error e"
  by (auto simp add: text_under_def
        dest!: and_then_error map_result_error intro: annotations_of_error annotation_text_error)

lemma present_fn_error: "present_fn t response = Inl e \<Longrightarrow> data_error e"
  by (auto simp add: present_fn_def
        dest!: and_then_error intro: py_getitem_error py_get_error py_len_error)

lemma count_fn_error: "count_fn t response = Inl e \<Longrightarrow> data_error e"
  by (auto simp add: count_fn_def
        dest!: and_then_error intro: py_getitem_error py_get_error py_len_error)

lemma replacement_error:
  assumes "replacement B response ann g = Inl e"
  shows "data_error e"
proof -
  obtain literal feature modifier where g: "g = (literal, feature, modifier)"
    by (cases g)
  show ?thesis
  proof (cases "literal \<noteq> None \<and> literal \<noteq> Some []")
    case True
    with assms g show ?thesis by (auto simp add: replacement_def)
  next
    case lit: False
    show ?thesis
    proof (cases "feature = Some ''text''")
      case True
      with assms g lit have "annotation_text response ann = Inl e"
        by (auto simp add: replacement_def)
      then show ?thesis by (rule annotation_text_error)
    next
      case False
      show ?thesis
      proof (cases "py_contains feature ann")
        case (Inl x)
        with assms g lit False have "x = e" by (auto simp add: replacement_def)
        with Inl show ?thesis using py_contains_error by blast
      next
        case (Inr present)
        show ?thesis
        proof (cases present)
          case True
          show ?thesis
          proof (cases "py_getitem_opt ann feature")
            case (Inl x)
            with assms g lit False Inr True have "x = e" by (auto simp add: replacement_def)
            with Inl show ?thesis using py_getitem_opt_error by blast
          next
            case v: (Inr v)
            with assms g lit False Inr True have "format_percent v = Inl e"
              by (auto simp add: replacement_def split: if_splits)
            then show ?thesis by (rule format_percent_error)
          qed
        next
          case no: False
          with assms g lit False Inr show ?thesis by (auto simp add: replacement_def)
        qed
      qed
    qed
  qed
qed

lemma template_sub_error: "template_sub (replacement B response ann) t = Inl e \<Longrightarrow> data_error e"
  by (auto simp add: template_sub_def substitute_piece_def split: piece.splits
        dest!: and_then_error map_result_error intro: replacement_error)

lemma response_to_column_error: "response_to_column B t template sep response = Inl e \<Longrightarrow> data_error e"
  by (auto simp add: response_to_column_def
        dest!: and_then_error map_result_error intro: annotations_of_error template_sub_error)

lemma output_function_never_exits:
  assumes "output_function B col type_to_sel = Inr (sel, fn)"
  shows "fn j \<noteq> Inl (SystemExit n)"
proof -
  from assms obtain t rest where m: "match_column col = Some (t, rest)"
    by (auto simp add: output_function_def split: option.splits)
  from output_function_result [OF m, of B type_to_sel] assms
  have "fn = (if rest = None \<or> rest = Some [] \<or> rest = Some ''text''
              then text_under (column_type t) '';''
              else if rest = Some ''present?'' then present_fn (column_type t)
              else if rest = Some ''#count'' then count_fn (column_type t)
              else response_to_column B (column_type t) (the rest) '';'')"
    by auto
  then have "fn j = Inl e \<Longrightarrow> data_error e" for e
    by (auto split: if_splits
          intro: text_under_error present_fn_error count_fn_error response_to_column_error)
  then show ?thesis
    using data_error_no_exit by blast
qed







end
